theory Spec2Isabelle
  imports Main "HOL-Library.Sublist"
begin

section \<open>The outside world of the two scripts\<close>

text \<open>
  \<^verbatim>\<open>scripts/prepare_video.py\<close> and \<^verbatim>\<open>scripts/run_colmap.py\<close> are wrappers around
  external executables. What they touch is the filesystem, the executable search path
  and the subprocesses they start, so the model passes an explicit world (the filesystem
  and the trace of what the script did) through every step, and takes the parts of the
  platform the scripts only call (\<^verbatim>\<open>shutil.which\<close>, \<^verbatim>\<open>Path.resolve\<close>, \<^verbatim>\<open>str\<close> of a
  path, \<^verbatim>\<open>subprocess.run\<close>) as fields of an environment record.
\<close>

subsection \<open>Paths and the filesystem\<close>

text \<open>
  A resolved \<^verbatim>\<open>pathlib.Path\<close> is the list of its components below the root; the root is
  the empty list and always exists as a directory. \<^verbatim>\<open>p / "name"\<close> appends one component.
  The filesystem is an association list from paths to nodes, read with \<open>map_of\<close>. A node
  is a directory, a regular file with its content, or something else (a FIFO, a socket, a
  device), which exists but is neither.
\<close>

type_synonym path = "string list"

datatype node = Dir | File string | Special

type_synonym filesystem = "(path \<times> node) list"

definition joinpath :: "path \<Rightarrow> string \<Rightarrow> path" where
  "joinpath p name = p @ [name]"

definition parent :: "path \<Rightarrow> path" where
  "parent p = butlast p"

definition path_exists :: "filesystem \<Rightarrow> path \<Rightarrow> bool" where
  "path_exists fsys p = (p = [] \<or> map_of fsys p \<noteq> None)"

definition is_dir :: "filesystem \<Rightarrow> path \<Rightarrow> bool" where
  "is_dir fsys p = (p = [] \<or> map_of fsys p = Some Dir)"

subsection \<open>Exceptions, subprocess results, events\<close>

text \<open>
  The exceptions that can leave a function of the scripts. \<open>ToolNotFound\<close> is the
  \<^verbatim>\<open>FileNotFoundError\<close> raised by \<^verbatim>\<open>ensure_ffmpeg\<close> and \<^verbatim>\<open>ensure_colmap\<close> (with the tool's
  name); \<open>CommandFailed rc\<close> is the \<^verbatim>\<open>RuntimeError\<close> of \<^verbatim>\<open>run_cmd\<close>; the next four are
  the \<^verbatim>\<open>OSError\<close>s of \<^verbatim>\<open>Path.mkdir\<close> (\<open>OSError\<close> stands for every refusal that does
  not come from the shape of the tree: permissions, a name that is too long, a read-only
  or full device); \<open>SpawnError\<close> and \<open>UnicodeDecodeError\<close> are raised by
  \<^verbatim>\<open>subprocess.run\<close>; \<open>SystemExit\<close> is what \<^verbatim>\<open>argparse\<close> raises on a usage error.
\<close>

datatype exn =
    ToolNotFound string
  | CommandFailed int
  | FileExistsError path
  | FileNotFoundError path
  | NotADirectoryError path
  | OSError path
  | SpawnError "string list"
  | UnicodeDecodeError
  | SystemExit int

text \<open>
  How a child process ended, as a POSIX system reports it: with an exit code, of which
  the wait status keeps eight bits, or by a signal, whose number is between 1 and 126
  (\<open>Signaled 9\<close> is a kill by signal 9; a number out of that range is brought into it).
  \<^verbatim>\<open>returncode\<close> is what \<^verbatim>\<open>subprocess\<close> makes of it: the exit code, or minus the
  signal number. The captured output is bytes; \<open>decodable\<close> says whether they are text in
  the encoding \<^verbatim>\<open>text=True\<close> decodes with.
\<close>

datatype wait_status = Exited nat | Signaled nat

record proc =
  status :: wait_status
  stdout :: string
  stderr :: string
  decodable :: bool

definition returncode :: "proc \<Rightarrow> int" where
  "returncode pr =
     (case status pr of
        Exited n \<Rightarrow> int (n mod 256)
      | Signaled sig \<Rightarrow> - int (Suc ((sig - 1) mod 126)))"

text \<open>
  What the scripts print is kept as a message value (several of the source's messages
  are not ASCII), together with the stream it goes to.
\<close>

datatype message =
    VideoNotFound path
  | FramesExist path
  | ExtractCommand "string list"
  | ExtractFailed
  | NoFramesGenerated
  | ExtractDone nat path
  | ImagesNotFound path
  | Running "string list"
  | ConverterFailed exn
  | SparseDone path
  | Captured string

datatype event =
    Out message
  | Err message
  | Mkdir path
  | Subprocess "string list" "int option"

record world =
  fs :: filesystem
  trace :: "event list"

record env =
  which :: "string \<Rightarrow> string option"
  resolve :: "string \<Rightarrow> path"
  path_str :: "path \<Rightarrow> string"
  spawn :: "string list \<Rightarrow> filesystem \<Rightarrow> (proc \<times> filesystem) option"
  mkdir_fault :: "filesystem \<Rightarrow> path \<Rightarrow> bool"
  here :: path

subsection \<open>Computations that may raise\<close>

type_synonym 'a io = "world \<Rightarrow> (exn + 'a) \<times> world"

definition io_return :: "'a \<Rightarrow> 'a io" where
  "io_return x w = (Inr x, w)"

definition io_raise :: "exn \<Rightarrow> 'a io" where
  "io_raise e w = (Inl e, w)"

definition io_bind :: "'a io \<Rightarrow> ('a \<Rightarrow> 'b io) \<Rightarrow> 'b io" where
  "io_bind m f w = (case m w of (Inl e, w') \<Rightarrow> (Inl e, w') | (Inr x, w') \<Rightarrow> f x w')"

definition io_try :: "'a io \<Rightarrow> (exn \<Rightarrow> 'a io) \<Rightarrow> 'a io" where
  "io_try m handler w = (case m w of (Inl e, w') \<Rightarrow> handler e w' | (Inr x, w') \<Rightarrow> (Inr x, w'))"

definition emit :: "event \<Rightarrow> unit io" where
  "emit e w = (Inr (), w\<lparr>trace := trace w @ [e]\<rparr>)"

definition print_out :: "message \<Rightarrow> unit io" where
  "print_out m = emit (Out m)"

definition print_err :: "message \<Rightarrow> unit io" where
  "print_err m = emit (Err m)"

definition exists_io :: "path \<Rightarrow> bool io" where
  "exists_io p w = (Inr (path_exists (fs w) p), w)"

text \<open>
  \<^verbatim>\<open>sys.exit(main())\<close>: the value \<^verbatim>\<open>main\<close> returns is the exit status asked for, of
  which a POSIX system keeps the low eight bits (\<^verbatim>\<open>sys.exit(-9)\<close> ends the process
  with status 247); an exception that leaves \<^verbatim>\<open>main\<close> ends the interpreter with status
  1, except \<^verbatim>\<open>SystemExit\<close>, which carries its own status.
\<close>

definition exit_status :: "exn + int \<Rightarrow> int" where
  "exit_status r =
     (case r of Inr n \<Rightarrow> n mod 256 | Inl (SystemExit n) \<Rightarrow> n mod 256 | Inl _ \<Rightarrow> 1)"

subsection \<open>Directory creation, globbing, subprocesses\<close>

text \<open>
  \<^verbatim>\<open>os.mkdir\<close>: fails when the operating system refuses (\<open>mkdir_fault\<close>: a matter of
  permissions, name length or the device, which the tree does not show), when the path
  exists, when its parent is missing, or when its parent is not a directory; otherwise
  the directory is added.
\<close>

definition os_mkdir :: "env \<Rightarrow> path \<Rightarrow> filesystem \<Rightarrow> (exn + unit) \<times> filesystem" where
  "os_mkdir e p fsys =
     (if mkdir_fault e fsys p then (Inl (OSError p), fsys)
      else if path_exists fsys p then (Inl (FileExistsError p), fsys)
      else if \<not> path_exists fsys (parent p) then (Inl (FileNotFoundError p), fsys)
      else if \<not> is_dir fsys (parent p) then (Inl (NotADirectoryError p), fsys)
      else (Inr (), fsys @ [(p, Dir)]))"

text \<open>
  \<^verbatim>\<open>Path.mkdir(parents, exist_ok)\<close> as the standard library writes it: try
  \<^verbatim>\<open>os.mkdir\<close>; on \<^verbatim>\<open>FileNotFoundError\<close> with \<^verbatim>\<open>parents\<close> set, make the parent (with
  \<^verbatim>\<open>parents=True, exist_ok=True\<close>) and then the path itself without \<^verbatim>\<open>parents\<close>; on
  any other \<^verbatim>\<open>OSError\<close>, pass when \<^verbatim>\<open>exist_ok\<close> is set and the path is a directory.
  The filesystem it returns holds whatever was created before a failure.
\<close>

function path_mkdir ::
  "env \<Rightarrow> path \<Rightarrow> bool \<Rightarrow> bool \<Rightarrow> filesystem \<Rightarrow> (exn + unit) \<times> filesystem" where
  "path_mkdir e p parents exist_ok fsys =
     (case os_mkdir e p fsys of
        (Inr u, fsys') \<Rightarrow> (Inr u, fsys')
      | (Inl (FileNotFoundError q), fsys') \<Rightarrow>
          if \<not> parents \<or> parent p = p then (Inl (FileNotFoundError q), fsys')
          else (case path_mkdir e (parent p) True True fsys' of
                  (Inl x, fsys'') \<Rightarrow> (Inl x, fsys'')
                | (Inr u, fsys'') \<Rightarrow> path_mkdir e p False exist_ok fsys'')
      | (Inl x, fsys') \<Rightarrow>
          if \<not> exist_ok \<or> \<not> is_dir fsys' p then (Inl x, fsys') else (Inr (), fsys'))"
  by pat_completeness auto
termination
proof (relation
    "measure (\<lambda>(e, p, parents, exist_ok, fsys). 2 * length p + (if parents then 1 else 0))")
  fix e :: env and p :: path and parents exist_ok :: bool and fsys fsys' :: filesystem
  assume "\<not> (\<not> parents \<or> parent p = p)"
  then have "p \<noteq> []" and "parents"
    by (auto simp: parent_def)
  then show "((e, parent p, True, True, fsys'), (e, p, parents, exist_ok, fsys))
      \<in> measure (\<lambda>(e, p, parents, exist_ok, fsys). 2 * length p + (if parents then 1 else 0))"
    by (cases p rule: rev_cases) (auto simp: parent_def)
qed auto

declare path_mkdir.simps [simp del]

text \<open>The script's call: the trace notes it, the filesystem takes its effect.\<close>

definition mkdir :: "env \<Rightarrow> path \<Rightarrow> bool \<Rightarrow> bool \<Rightarrow> unit io" where
  "mkdir e p parents exist_ok w =
     (case path_mkdir e p parents exist_ok (fs w) of
        (r, fsys') \<Rightarrow> (r, w\<lparr>fs := fsys', trace := trace w @ [Mkdir p]\<rparr>))"

text \<open>
  Shell-style matching of one path component: \<open>*\<close> stands for any run of characters,
  \<open>?\<close> for one character, anything else for itself (bracket classes, which the
  scripts' pattern does not use, are left out).
\<close>

fun fnmatch :: "string \<Rightarrow> string \<Rightarrow> bool" where
  "fnmatch [] [] = True"
| "fnmatch [] (c # cs) = False"
| "fnmatch (p # ps) [] = (p = CHR ''*'' \<and> fnmatch ps [])"
| "fnmatch (p # ps) (c # cs) =
     (if p = CHR ''*'' then fnmatch ps (c # cs) \<or> fnmatch (p # ps) cs
      else if p = CHR ''?'' then fnmatch ps cs
      else p = c \<and> fnmatch ps cs)"

text \<open>
  \<^verbatim>\<open>d.glob(pattern)\<close> for a pattern of one component: the entries directly inside the
  directory \<open>d\<close> whose name matches.
\<close>

definition glob :: "filesystem \<Rightarrow> path \<Rightarrow> string \<Rightarrow> path list" where
  "glob fsys d pattern =
     (if is_dir fsys d
      then filter (\<lambda>p. p \<noteq> [] \<and> parent p = d \<and> fnmatch pattern (last p)) (remdups (map fst fsys))
      else [])"

definition glob_io :: "path \<Rightarrow> string \<Rightarrow> path list io" where
  "glob_io d pattern w = (Inr (glob (fs w) d pattern), w)"

text \<open>
  \<^verbatim>\<open>subprocess.run(cmd, stdout=PIPE, stderr=PIPE, text=True)\<close>: the child either cannot
  be started (\<open>spawn\<close> gives \<open>None\<close>, Python raises an \<^verbatim>\<open>OSError\<close>), or runs to its end
  and leaves the filesystem as it likes. Then its captured output is decoded: when that
  fails, \<^verbatim>\<open>UnicodeDecodeError\<close> is raised although the child has run; otherwise the
  script gets the return code and the output. The trace records the command and the
  return code that reached the script, if one did.
\<close>

definition subprocess_run :: "env \<Rightarrow> string list \<Rightarrow> proc io" where
  "subprocess_run e cmd w =
     (case spawn e cmd (fs w) of
        None \<Rightarrow> (Inl (SpawnError cmd), w\<lparr>trace := trace w @ [Subprocess cmd None]\<rparr>)
      | Some (pr, fsys') \<Rightarrow>
          if decodable pr
          then (Inr pr, w\<lparr>fs := fsys',
                          trace := trace w @ [Subprocess cmd (Some (returncode pr))]\<rparr>)
          else (Inl UnicodeDecodeError,
                w\<lparr>fs := fsys', trace := trace w @ [Subprocess cmd None]\<rparr>))"

text \<open>Python's \<^verbatim>\<open>str\<close> of an integer.\<close>

fun str_nat :: "nat \<Rightarrow> string" where
  "str_nat n = (if n < 10 then [''0123456789'' ! n] else str_nat (n div 10) @ [''0123456789'' ! (n mod 10)])"

declare str_nat.simps [simp del]

definition str_int :: "int \<Rightarrow> string" where
  "str_int i = (if i < 0 then ''-'' @ str_nat (nat (- i)) else str_nat (nat i))"

section \<open>run\_colmap.py\<close>

definition candidates :: "path \<Rightarrow> path list" where
  "candidates here_dir =
     (let bundled = joinpath (joinpath here_dir ''tools'') ''colmap''
      in [joinpath bundled ''COLMAP.bat'',
          joinpath (joinpath bundled ''bin'') ''colmap.exe'',
          joinpath (joinpath bundled ''bin'') ''colmap''])"

fun first_existing :: "filesystem \<Rightarrow> path list \<Rightarrow> path option" where
  "first_existing fsys [] = None"
| "first_existing fsys (c # cs) = (if path_exists fsys c then Some c else first_existing fsys cs)"

definition ensure_colmap :: "env \<Rightarrow> string io" where
  "ensure_colmap e w =
     (case first_existing (fs w) (candidates (here e)) of
        Some c \<Rightarrow> io_return (path_str e c) w
      | None \<Rightarrow>
          (case which e ''colmap'' of
             None \<Rightarrow> io_raise (ToolNotFound ''colmap'') w
           | Some colmap \<Rightarrow>
               if colmap = [] then io_raise (ToolNotFound ''colmap'') w
               else io_return colmap w))"

text \<open>
  \<^verbatim>\<open>run_cmd\<close> (its \<^verbatim>\<open>cwd\<close> argument is never passed by the script and is left out).
\<close>

definition run_cmd :: "env \<Rightarrow> string list \<Rightarrow> unit io" where
  "run_cmd e cmd =
     io_bind (print_out (Running cmd)) (\<lambda>_.
     io_bind (subprocess_run e cmd) (\<lambda>pr.
       if returncode pr \<noteq> 0 then
         io_bind (if stdout pr \<noteq> [] then print_out (Captured (stdout pr)) else io_return ()) (\<lambda>_.
         io_bind (if stderr pr \<noteq> [] then print_err (Captured (stderr pr)) else io_return ()) (\<lambda>_.
         io_raise (CommandFailed (returncode pr))))
       else io_return ()))"

text \<open>
  The namespace \<^verbatim>\<open>parse_args\<close> returns. The field for \<^verbatim>\<open>--out\<close> is \<open>rc_out\<close> (the
  other script has an \<^verbatim>\<open>--out\<close> of its own).
\<close>

record rc_args =
  images :: string
  rc_out :: string
  matcher :: string
  single_camera :: bool
  threads :: int



text \<open>The four command lines \<^verbatim>\<open>main\<close> builds, as functions of the values they use.\<close>

definition feat_cmd :: "string \<Rightarrow> string \<Rightarrow> string \<Rightarrow> bool \<Rightarrow> string list" where
  "feat_cmd colmap db imgs single =
     [colmap, ''feature_extractor'', ''--database_path'', db, ''--image_path'', imgs]
     @ (if single then [''--ImageReader.single_camera'', ''1''] else [])"

definition match_cmd :: "string \<Rightarrow> string \<Rightarrow> string \<Rightarrow> string list" where
  "match_cmd colmap db m =
     (if m = ''sequential''
      then [colmap, ''sequential_matcher'', ''--database_path'', db]
      else [colmap, ''exhaustive_matcher'', ''--database_path'', db])"

definition mapper_cmd :: "string \<Rightarrow> string \<Rightarrow> string \<Rightarrow> string \<Rightarrow> int \<Rightarrow> string list" where
  "mapper_cmd colmap db imgs sparse n =
     [colmap, ''mapper'', ''--database_path'', db, ''--image_path'', imgs,
      ''--output_path'', sparse, ''--Mapper.num_threads'', str_int n]"

definition converter_cmd :: "string \<Rightarrow> string \<Rightarrow> string list" where
  "converter_cmd colmap model =
     [colmap, ''model_converter'', ''--input_path'', model, ''--output_path'', model,
      ''--output_type'', ''TXT'']"

text \<open>
  Lines 84 to 136 of \<^verbatim>\<open>main\<close>: the three fatal stages, then the conversion whose
  failure is caught.
\<close>

definition run_stages :: "env \<Rightarrow> rc_args \<Rightarrow> string \<Rightarrow> path \<Rightarrow> path \<Rightarrow> path \<Rightarrow> int io" where
  "run_stages e args colmap images_path out_root sparse_dir =
     (let db_path = joinpath out_root ''database.db'' in
      io_bind (run_cmd e (feat_cmd colmap (path_str e db_path) (path_str e images_path)
                 (single_camera args))) (\<lambda>_.
      io_bind (run_cmd e (match_cmd colmap (path_str e db_path) (matcher args))) (\<lambda>_.
      io_bind (run_cmd e (mapper_cmd colmap (path_str e db_path) (path_str e images_path)
                 (path_str e sparse_dir) (threads args))) (\<lambda>_.
      let model_dir = joinpath sparse_dir ''0'' in
      io_bind (exists_io model_dir) (\<lambda>model_exists.
      io_bind (if model_exists
               then io_try (run_cmd e (converter_cmd colmap (path_str e model_dir)))
                      (\<lambda>x. print_err (ConverterFailed x))
               else io_return ()) (\<lambda>_.
      io_bind (print_out (SparseDone model_dir)) (\<lambda>_.
      io_return 0)))))))"

text \<open>
  \<^verbatim>\<open>main\<close> of \<^verbatim>\<open>run_colmap.py\<close>, from the point where \<^verbatim>\<open>parse_args\<close> has returned,
  up to the creation of the output directories; the rest is \<open>run_stages\<close>.
\<close>

definition run_colmap_main :: "env \<Rightarrow> rc_args \<Rightarrow> int io" where
  "run_colmap_main e args =
     io_bind (ensure_colmap e) (\<lambda>colmap.
     let images_path = resolve e (images args);
         out_root = resolve e (rc_out args)
     in
     io_bind (exists_io images_path) (\<lambda>found.
     if \<not> found then
       io_bind (print_err (ImagesNotFound images_path)) (\<lambda>_. io_return 1)
     else
       io_bind (mkdir e out_root True True) (\<lambda>_.
       let sparse_dir = joinpath out_root ''sparse'' in
       io_bind (mkdir e sparse_dir False True) (\<lambda>_.
       run_stages e args colmap images_path out_root sparse_dir))))"


section \<open>prepare\_video.py\<close>

definition ensure_ffmpeg :: "env \<Rightarrow> string io" where
  "ensure_ffmpeg e =
     (case which e ''ffmpeg'' of
        None \<Rightarrow> io_raise (ToolNotFound ''ffmpeg'')
      | Some ffmpeg \<Rightarrow>
          if ffmpeg = [] then io_raise (ToolNotFound ''ffmpeg'') else io_return ffmpeg)"

text \<open>
  The namespace of this script's \<^verbatim>\<open>parse_args\<close>; \<open>pv_out\<close> is its \<^verbatim>\<open>--out\<close>.
\<close>

record pv_args =
  video :: string
  pv_out :: string
  fps :: int
  overwrite :: bool

definition extract_cmd :: "string \<Rightarrow> bool \<Rightarrow> string \<Rightarrow> int \<Rightarrow> string \<Rightarrow> string list" where
  "extract_cmd ffmpeg ow vid rate pattern =
     [ffmpeg, (if ow then ''-y'' else ''-n''), ''-i'', vid, ''-vf'', ''fps='' @ str_int rate,
      ''-pix_fmt'', ''rgb24'', pattern, ''-hide_banner'', ''-loglevel'', ''error'']"

text \<open>
  Lines 59 to 91 of \<^verbatim>\<open>main\<close>: build the command, run it, count the frames. Of the sorted
  list of frames the script uses the length only, so the list is left in directory order.
\<close>

definition extract_frames :: "env \<Rightarrow> pv_args \<Rightarrow> string \<Rightarrow> path \<Rightarrow> path \<Rightarrow> int io" where
  "extract_frames e args ffmpeg video_path images_dir =
     (let pattern = joinpath images_dir ''frame_%05d.png'';
          cmd = extract_cmd ffmpeg (overwrite args) (path_str e video_path) (fps args)
                  (path_str e pattern)
      in
      io_bind (print_out (ExtractCommand cmd)) (\<lambda>_.
      io_bind (subprocess_run e cmd) (\<lambda>pr.
      if returncode pr \<noteq> 0 then
        io_bind (print_err ExtractFailed) (\<lambda>_.
        io_bind (if stdout pr \<noteq> [] then print_err (Captured (stdout pr)) else io_return ()) (\<lambda>_.
        io_bind (if stderr pr \<noteq> [] then print_err (Captured (stderr pr)) else io_return ()) (\<lambda>_.
        io_return (returncode pr))))
      else
        io_bind (glob_io images_dir ''frame_*.png'') (\<lambda>frames.
        if frames = [] then
          io_bind (print_err NoFramesGenerated) (\<lambda>_. io_return 1)
        else
          io_bind (print_out (ExtractDone (length frames) images_dir)) (\<lambda>_.
          io_return 0)))))"

text \<open>
  \<^verbatim>\<open>main\<close> of \<^verbatim>\<open>prepare_video.py\<close>, from the point where \<^verbatim>\<open>parse_args\<close> has returned,
  up to the overwrite guard; the rest is \<open>extract_frames\<close>.
\<close>

definition prepare_video_main :: "env \<Rightarrow> pv_args \<Rightarrow> int io" where
  "prepare_video_main e args =
     io_bind (ensure_ffmpeg e) (\<lambda>ffmpeg.
     let video_path = resolve e (video args) in
     io_bind (exists_io video_path) (\<lambda>found.
     if \<not> found then
       io_bind (print_err (VideoNotFound video_path)) (\<lambda>_. io_return 1)
     else
       let out_root = resolve e (pv_out args);
           images_dir = joinpath out_root ''images''
       in
       io_bind (mkdir e images_dir True True) (\<lambda>_.
       if \<not> overwrite args then
         io_bind (glob_io images_dir ''frame_*.png'') (\<lambda>existing.
         if existing \<noteq> [] then
           io_bind (print_err (FramesExist images_dir)) (\<lambda>_. io_return 1)
         else extract_frames e args ffmpeg video_path images_dir)
       else extract_frames e args ffmpeg video_path images_dir)))"

section \<open>Observing a run\<close>

text \<open>
  The subprocesses of a trace, in the order they were started, each with the return
  code that reached the script (\<open>None\<close> when the child could not be started or its output
  could not be decoded), and the subcommand of a command line (its second word).
\<close>

fun runs :: "event list \<Rightarrow> (string list \<times> int option) list" where
  "runs [] = []"
| "runs (Subprocess c r # es) = (c, r) # runs es"
| "runs (_ # es) = runs es"

fun subcommand :: "string list \<Rightarrow> string" where
  "subcommand (_ # s # _) = s"
| "subcommand _ = []"

text \<open>
  The frames a run produced: the entries matching the frame pattern afterwards that
  were not there before, or were there with another content.
\<close>

definition produced_frames :: "filesystem \<Rightarrow> filesystem \<Rightarrow> path \<Rightarrow> path list" where
  "produced_frames before after d =
     filter (\<lambda>p. map_of after p \<noteq> map_of before p) (glob after d ''frame_*.png'')"

section \<open>Example runs\<close>

text \<open>
  A small POSIX-like platform for concrete runs: relative names resolve below
  \<^verbatim>\<open>/data\<close>, a path prints with slashes, and \<^verbatim>\<open>colmap\<close> is a stand-in that fails in
  the stage named \<open>failing\<close> and whose mapper writes \<^verbatim>\<open>sparse/0/cameras.bin\<close>.
\<close>

definition demo_str :: "path \<Rightarrow> string" where
  "demo_str p = concat (map (\<lambda>c. CHR ''/'' # c) p)"

definition demo_resolve :: "string \<Rightarrow> path" where
  "demo_resolve s = [''data'', s]"

definition demo_colmap :: "string \<Rightarrow> string list \<Rightarrow> filesystem \<Rightarrow> (proc \<times> filesystem) option" where
  "demo_colmap failing cmd fsys =
     (if subcommand cmd = failing
      then Some (\<lparr>status = Exited 1, stdout = [], stderr = ''failed'', decodable = True\<rparr>, fsys)
      else if subcommand cmd = ''mapper''
      then Some (\<lparr>status = Exited 0, stdout = [], stderr = [], decodable = True\<rparr>,
                 fsys @ [([''data'', ''job'', ''sparse'', ''0''], Dir),
                         ([''data'', ''job'', ''sparse'', ''0'', ''cameras.bin''], File ''bin'')])
      else Some (\<lparr>status = Exited 0, stdout = [], stderr = [], decodable = True\<rparr>, fsys))"

definition demo_env :: "string \<Rightarrow> env" where
  "demo_env failing =
     \<lparr>which = (\<lambda>tool. if tool = ''colmap'' then Some ''/usr/bin/colmap'' else None),
      resolve = demo_resolve, path_str = demo_str, spawn = demo_colmap failing,
      mkdir_fault = (\<lambda>fsys p. False), here = [''opt'', ''litegs'']\<rparr>"

definition demo_fs :: filesystem where
  "demo_fs = [([''data''], Dir), ([''data'', ''frames''], Dir)]"

definition demo_args :: rc_args where
  "demo_args = \<lparr>images = ''frames'', rc_out = ''job'', matcher = ''exhaustive'',
                 single_camera = True, threads = 4\<rparr>"



text \<open>A filesystem with two bundled binaries but no bundled launcher.\<close>

definition bundled_fs :: filesystem where
  "bundled_fs =
     [([''opt''], Dir), ([''opt'', ''litegs''], Dir), ([''opt'', ''litegs'', ''tools''], Dir),
      ([''opt'', ''litegs'', ''tools'', ''colmap''], Dir),
      ([''opt'', ''litegs'', ''tools'', ''colmap'', ''bin''], Dir),
      ([''opt'', ''litegs'', ''tools'', ''colmap'', ''bin'', ''colmap''], File ''elf''),
      ([''opt'', ''litegs'', ''tools'', ''colmap'', ''bin'', ''colmap.exe''], File ''pe'')]"

text \<open>
  For the frame extractor: a stand-in for \<^verbatim>\<open>ffmpeg\<close> that writes the given frames
  (name and content) into \<^verbatim>\<open>/data/clip/images\<close> and exits with the given code; a
  filesystem that holds the video and two frames of an earlier run; and one that holds
  the video only.
\<close>

definition write_file :: "filesystem \<Rightarrow> path \<Rightarrow> string \<Rightarrow> filesystem" where
  "write_file fsys p content = (p, File content) # filter (\<lambda>(q, _). q \<noteq> p) fsys"

definition demo_ffmpeg ::
  "(string \<times> string) list \<Rightarrow> nat \<Rightarrow> string list \<Rightarrow> filesystem \<Rightarrow> (proc \<times> filesystem) option" where
  "demo_ffmpeg frames rc cmd fsys =
     Some (\<lparr>status = Exited rc, stdout = [], stderr = (if rc = 0 then [] else ''error''),
            decodable = True\<rparr>,
           fold (\<lambda>(name, content) f. write_file f [''data'', ''clip'', ''images'', name] content)
             frames fsys)"

definition video_env :: "(string \<times> string) list \<Rightarrow> nat \<Rightarrow> env" where
  "video_env frames rc =
     \<lparr>which = (\<lambda>tool. if tool = ''ffmpeg'' then Some ''/usr/bin/ffmpeg'' else None),
      resolve = demo_resolve, path_str = demo_str, spawn = demo_ffmpeg frames rc,
      mkdir_fault = (\<lambda>fsys p. False), here = [''opt'', ''litegs'']\<rparr>"

definition bare_env :: env where
  "bare_env =
     \<lparr>which = (\<lambda>tool. None), resolve = demo_resolve, path_str = demo_str,
      spawn = (\<lambda>cmd fsys. None), mkdir_fault = (\<lambda>fsys p. False),
      here = [''opt'', ''litegs'']\<rparr>"

text \<open>
  Other stand-ins for \<^verbatim>\<open>ffmpeg\<close>, given by what they do to the filesystem, how they
  end, and whether their output is text: one that removes every entry of
  \<^verbatim>\<open>/data/clip/images\<close>, and the general form.
\<close>

definition wipe_frames :: "filesystem \<Rightarrow> filesystem" where
  "wipe_frames fsys = filter (\<lambda>(q, n). parent q \<noteq> [''data'', ''clip'', ''images'']) fsys"

definition tool_env :: "(filesystem \<Rightarrow> filesystem) \<Rightarrow> wait_status \<Rightarrow> bool \<Rightarrow> env" where
  "tool_env effect st dec =
     \<lparr>which = (\<lambda>tool. if tool = ''ffmpeg'' then Some ''/usr/bin/ffmpeg'' else None),
      resolve = demo_resolve, path_str = demo_str,
      spawn = (\<lambda>cmd fsys. Some (\<lparr>status = st, stdout = [], stderr = [], decodable = dec\<rparr>,
                                effect fsys)),
      mkdir_fault = (\<lambda>fsys p. False), here = [''opt'', ''litegs'']\<rparr>"

definition video_fs :: filesystem where
  "video_fs =
     [([''data''], Dir), ([''data'', ''in.mp4''], File ''video''), ([''data'', ''clip''], Dir),
      ([''data'', ''clip'', ''images''], Dir),
      ([''data'', ''clip'', ''images'', ''frame_00001.png''], File ''old1''),
      ([''data'', ''clip'', ''images'', ''frame_00002.png''], File ''old2'')]"

definition fresh_fs :: filesystem where
  "fresh_fs = [([''data''], Dir), ([''data'', ''in.mp4''], File ''video'')]"

text \<open>A filesystem in which a regular file stands where the output root should be.\<close>

definition blocked_fs :: filesystem where
  "blocked_fs =
     [([''data''], Dir), ([''data'', ''in.mp4''], File ''video''),
      ([''data'', ''clip''], File ''notes'')]"

definition video_args :: "bool \<Rightarrow> pv_args" where
  "video_args ow = \<lparr>video = ''in.mp4'', pv_out = ''clip'', fps = 10, overwrite = ow\<rparr>"

section \<open>Basic facts\<close>

lemmas io_defs = io_bind_def io_return_def io_raise_def io_try_def emit_def print_out_def
  print_err_def exists_io_def glob_io_def

lemmas eval_defs = run_colmap_main_def run_stages_def run_cmd_def subprocess_run_def mkdir_def
  path_mkdir.simps os_mkdir_def ensure_colmap_def candidates_def joinpath_def parent_def
  path_exists_def is_dir_def io_defs feat_cmd_def match_cmd_def mapper_cmd_def converter_cmd_def
  str_int_def str_nat.simps returncode_def demo_env_def demo_colmap_def demo_fs_def demo_args_def
  demo_str_def demo_resolve_def Let_def

lemmas video_eval_defs = prepare_video_main_def extract_frames_def extract_cmd_def ensure_ffmpeg_def
  subprocess_run_def mkdir_def path_mkdir.simps os_mkdir_def joinpath_def parent_def
  path_exists_def is_dir_def io_defs str_int_def str_nat.simps glob_def returncode_def
  video_env_def bare_env_def tool_env_def wipe_frames_def demo_ffmpeg_def write_file_def
  video_fs_def fresh_fs_def video_args_def demo_str_def demo_resolve_def Let_def

lemma runs_append [simp]: "runs (xs @ ys) = runs xs @ runs ys"
  by (induction xs rule: runs.induct) auto

lemma subcommand_cmds [simp]:
  "subcommand (feat_cmd c d i s) = ''feature_extractor''"
  "subcommand (match_cmd c d m) =
     (if m = ''sequential'' then ''sequential_matcher'' else ''exhaustive_matcher'')"
  "subcommand (mapper_cmd c d i sp n) = ''mapper''"
  "subcommand (converter_cmd c md) = ''model_converter''"
  by (simp_all add: feat_cmd_def match_cmd_def mapper_cmd_def converter_cmd_def)

subsection \<open>Return codes and exit statuses\<close>

lemma returncode_range: "- 126 \<le> returncode pr \<and> returncode pr \<le> 255"
proof (cases "status pr")
  case (Exited n)
  have "n mod 256 < 256" by simp
  with Exited show ?thesis by (simp add: returncode_def)
next
  case (Signaled sig)
  have "(sig - 1) mod 126 < 126" by simp
  with Signaled show ?thesis by (simp add: returncode_def)
qed

lemma returncode_mod_256: "returncode pr mod 256 = 0 \<longleftrightarrow> returncode pr = 0"
proof
  assume "returncode pr mod 256 = 0"
  then obtain k where k: "returncode pr = 256 * k"
    by (auto simp: mod_eq_0_iff_dvd)
  with returncode_range[of pr] show "returncode pr = 0"
    by auto
qed simp

lemma returncode_exit_code:
  "0 < returncode pr \<Longrightarrow> returncode pr mod 256 = returncode pr"
  using returncode_range[of pr] by simp

lemma exit_status_simps [simp]:
  "exit_status (Inr 0) = 0"
  "exit_status (Inr 1) = 1"
  "exit_status (Inl (ToolNotFound t)) = 1"
  "exit_status (Inl (CommandFailed rc)) = 1"
  "exit_status (Inl (SpawnError c)) = 1"
  "exit_status (Inl UnicodeDecodeError) = 1"
  by (simp_all add: exit_status_def)

subsection \<open>Directory creation\<close>

lemma path_mkdir_error:
  "fst (path_mkdir e p a b fsys) = Inl x \<Longrightarrow> exit_status (Inl x) = 1"
proof (induction e p a b fsys rule: path_mkdir.induct)
  case (1 e p parents exist_ok fsys)
  from 1(3) show ?case
    apply (subst (asm) path_mkdir.simps)
    using 1(1,2)
    apply (auto simp: os_mkdir_def exit_status_def
        split: prod.splits sum.splits exn.splits if_splits)
    done
qed

lemma path_mkdir_existing:
  "is_dir fsys p \<Longrightarrow> path_mkdir e p parents True fsys = (Inr (), fsys)"
  by (subst path_mkdir.simps) (auto simp: os_mkdir_def is_dir_def path_exists_def)

lemma path_mkdir_adds:
  "\<exists>ds. snd (path_mkdir e p a b fsys) = fsys @ map (\<lambda>q. (q, Dir)) ds \<and>
        set ds \<subseteq> set (prefixes p)"
proof (induction e p a b fsys rule: path_mkdir.induct)
  case (1 e p parents exist_ok fsys)
  have keep: "\<exists>ds. fsys = fsys @ map (\<lambda>q. (q, Dir)) ds \<and> set ds \<subseteq> set (prefixes p)"
    by (intro exI[of _ "[]"]) simp
  have one: "\<exists>ds. fsys @ [(p, Dir)] = fsys @ map (\<lambda>q. (q, Dir)) ds \<and> set ds \<subseteq> set (prefixes p)"
    by (intro exI[of _ "[p]"]) simp
  show ?case
  proof (cases "os_mkdir e p fsys")
    case (Pair r f0)
    show ?thesis
    proof (cases r)
      case (Inr u)
      with Pair one show ?thesis
        by (subst path_mkdir.simps) (auto simp: os_mkdir_def split: if_splits)
    next
      case (Inl x)
      from Pair Inl have f0: "f0 = fsys"
        by (auto simp: os_mkdir_def split: if_splits)
      show ?thesis
      proof (cases "\<exists>q. x = FileNotFoundError q")
        case False
        with Pair Inl f0 keep show ?thesis
          by (subst path_mkdir.simps) (cases x; auto)
      next
        case True
        then obtain q where x: "x = FileNotFoundError q" by blast
        show ?thesis
        proof (cases "\<not> parents \<or> parent p = p")
          case True
          with Pair Inl f0 x keep show ?thesis
            by (subst path_mkdir.simps) auto
        next
          case rec: False
          obtain r1 f1 where first: "path_mkdir e (parent p) True True fsys = (r1, f1)"
            by (cases "path_mkdir e (parent p) True True fsys")
          from 1(1)[OF Pair[symmetric] Inl x rec] first f0
          obtain ds1 where ds1: "f1 = fsys @ map (\<lambda>q. (q, Dir)) ds1"
              "set ds1 \<subseteq> set (prefixes (parent p))"
            by auto
          from rec have "p \<noteq> []" by (auto simp: parent_def)
          with ds1(2) have sub1: "set ds1 \<subseteq> set (prefixes p)"
            by (cases p rule: rev_cases) (auto simp: parent_def)
          show ?thesis
          proof (cases r1)
            case l1: (Inl y)
            with Pair Inl f0 x rec first ds1(1) sub1 show ?thesis
              by (subst path_mkdir.simps) auto
          next
            case r1: (Inr u)
            from 1(2)[OF Pair[symmetric] Inl x rec _ r1, of f1] first f0
            obtain ds2 where ds2: "snd (path_mkdir e p False exist_ok f1) = f1 @ map (\<lambda>q. (q, Dir)) ds2"
                "set ds2 \<subseteq> set (prefixes p)"
              by auto
            from ds1(1) ds2(1)
            have "snd (path_mkdir e p False exist_ok f1) = fsys @ map (\<lambda>q. (q, Dir)) (ds1 @ ds2)"
              by simp
            moreover from sub1 ds2(2) have "set (ds1 @ ds2) \<subseteq> set (prefixes p)" by simp
            ultimately have "\<exists>ds. snd (path_mkdir e p False exist_ok f1) = fsys @ map (\<lambda>q. (q, Dir)) ds
                \<and> set ds \<subseteq> set (prefixes p)"
              by blast
            with Pair Inl f0 x rec first r1 show ?thesis
              by (subst path_mkdir.simps) auto
          qed
        qed
      qed
    qed
  qed
qed

lemma path_mkdir_creates:
  "path_mkdir e p a b fsys = (Inr (), fsys') \<Longrightarrow> is_dir fsys' p"
proof (induction e p a b fsys rule: path_mkdir.induct)
  case (1 e p parents exist_ok fsys)
  from 1(3) show ?case
    apply (subst (asm) path_mkdir.simps)
    using 1(1,2)
    apply (auto simp: os_mkdir_def is_dir_def path_exists_def map_add_def
        split: prod.splits sum.splits exn.splits if_splits option.splits)
    done
qed

lemma mkdir_runs: "runs (trace (snd (mkdir e p a b w))) = runs (trace w)"
  by (simp add: mkdir_def split: prod.splits)

lemma mkdir_error: "fst (mkdir e p a b w) = Inl x \<Longrightarrow> exit_status (Inl x) = 1"
  using path_mkdir_error[of e p a b "fs w" x]
  by (simp add: mkdir_def split: prod.splits)

subsection \<open>Globbing\<close>

lemma glob_nonempty_is_dir: "glob fsys d pat \<noteq> [] \<Longrightarrow> is_dir fsys d"
  by (auto simp: glob_def split: if_splits)


subsection \<open>One stage\<close>

lemma run_cmd_cases:
  obtains (noresult) x f' where "x = SpawnError cmd \<or> x = UnicodeDecodeError"
      "run_cmd e cmd w =
         (Inl x, w\<lparr>fs := f', trace := trace w @ [Out (Running cmd), Subprocess cmd None]\<rparr>)"
      "spawn e cmd (fs w) = None \<and> f' = fs w \<or>
       (\<exists>pr. spawn e cmd (fs w) = Some (pr, f') \<and> \<not> decodable pr)"
  | (ok) pr f' where "spawn e cmd (fs w) = Some (pr, f')" "decodable pr" "returncode pr = 0"
      "run_cmd e cmd w =
         (Inr (), w\<lparr>fs := f', trace := trace w @ [Out (Running cmd), Subprocess cmd (Some 0)]\<rparr>)"
  | (failed) pr f' cap where "spawn e cmd (fs w) = Some (pr, f')" "decodable pr"
      "returncode pr \<noteq> 0"
      "run_cmd e cmd w = (Inl (CommandFailed (returncode pr)),
          w\<lparr>fs := f', trace := trace w
             @ [Out (Running cmd), Subprocess cmd (Some (returncode pr))] @ cap\<rparr>)"
      "runs cap = []"
proof (cases "spawn e cmd (fs w)")
  case None
  then show ?thesis
    by (intro noresult[of "SpawnError cmd" "fs w"])
       (simp_all add: run_cmd_def subprocess_run_def io_defs)
next
  case (Some a)
  obtain pr f' where a: "a = (pr, f')" by (cases a)
  show ?thesis
  proof (cases "decodable pr")
    case False
    with Some a show ?thesis
      by (intro noresult[of UnicodeDecodeError f'])
         (simp_all add: run_cmd_def subprocess_run_def io_defs)
  next
    case dec: True
    show ?thesis
    proof (cases "returncode pr = 0")
      case True
      with Some a dec show ?thesis
        by (intro ok[of pr f']) (simp_all add: run_cmd_def subprocess_run_def io_defs)
    next
      case False
      with Some a dec show ?thesis
        by (intro failed[of pr f'
              "(if stdout pr \<noteq> [] then [Out (Captured (stdout pr))] else [])
               @ (if stderr pr \<noteq> [] then [Err (Captured (stderr pr))] else [])"])
           (simp_all add: run_cmd_def subprocess_run_def io_defs)
    qed
  qed
qed

subsection \<open>The outcomes of the four stages\<close>

lemma run_stages_outcome:
  assumes run: "run_stages e args colmap ip out sp w = (r, w')"
  defines "c1 \<equiv> feat_cmd colmap (path_str e (joinpath out ''database.db'')) (path_str e ip)
                  (single_camera args)"
      and "c2 \<equiv> match_cmd colmap (path_str e (joinpath out ''database.db'')) (matcher args)"
      and "c3 \<equiv> mapper_cmd colmap (path_str e (joinpath out ''database.db'')) (path_str e ip)
                  (path_str e sp) (threads args)"
      and "c4 \<equiv> converter_cmd colmap (path_str e (joinpath sp ''0''))"
  obtains
    (fatal1) o1 where "o1 \<noteq> Some 0" "exit_status r = 1"
      "runs (trace w') = runs (trace w) @ [(c1, o1)]"
  | (fatal2) o2 where "o2 \<noteq> Some 0" "exit_status r = 1"
      "runs (trace w') = runs (trace w) @ [(c1, Some 0), (c2, o2)]"
  | (fatal3) o3 where "o3 \<noteq> Some 0" "exit_status r = 1"
      "runs (trace w') = runs (trace w) @ [(c1, Some 0), (c2, Some 0), (c3, o3)]"
  | (no_model) "r = Inr 0"
      "runs (trace w') = runs (trace w) @ [(c1, Some 0), (c2, Some 0), (c3, Some 0)]"
  | (converted) o4 f2 p3 f3 where "r = Inr 0"
      "runs (trace w') = runs (trace w) @ [(c1, Some 0), (c2, Some 0), (c3, Some 0), (c4, o4)]"
      "spawn e c3 f2 = Some (p3, f3)" "returncode p3 = 0"
      "case spawn e c4 f3 of None \<Rightarrow> fs w' = f3 \<and> o4 = None
           | Some (p4, f4) \<Rightarrow>
               fs w' = f4 \<and> o4 = (if decodable p4 then Some (returncode p4) else None)"
      "o4 \<noteq> Some 0 \<longrightarrow>
         (\<exists>x. Err (ConverterFailed x) \<in> set (trace w') \<and>
              (\<forall>rc. o4 = Some rc \<longrightarrow> x = CommandFailed rc))"
proof -
  let ?md = "joinpath sp ''0''"
  let ?tail = "\<lambda>u::unit. io_bind (exists_io ?md) (\<lambda>m.
       io_bind (if m then io_try (run_cmd e c4) (\<lambda>x. print_err (ConverterFailed x))
                else io_return ())
        (\<lambda>_. io_bind (print_out (SparseDone ?md)) (\<lambda>_. io_return 0)))"
  have run': "io_bind (run_cmd e c1) (\<lambda>_. io_bind (run_cmd e c2) (\<lambda>_.
      io_bind (run_cmd e c3) ?tail)) w = (r, w')"
    using run unfolding run_stages_def Let_def c1_def c2_def c3_def c4_def by simp
  show thesis
  proof (cases rule: run_cmd_cases[of c1 e w])
    case (noresult x f')
    with run' show ?thesis
      by (intro fatal1[of None]) (auto simp: io_bind_def)
  next
    case (failed pr f' cap)
    with run' show ?thesis
      by (intro fatal1[of "Some (returncode pr)"]) (auto simp: io_bind_def)
  next
    case s1: (ok pr1 f1)
    let ?w1 = "w\<lparr>fs := f1, trace := trace w @ [Out (Running c1), Subprocess c1 (Some 0)]\<rparr>"
    from run' s1
    have run1: "io_bind (run_cmd e c2) (\<lambda>_. io_bind (run_cmd e c3) ?tail) ?w1 = (r, w')"
      by (simp add: io_bind_def)
    show ?thesis
    proof (cases rule: run_cmd_cases[of c2 e ?w1])
      case (noresult x f')
      with run1 show ?thesis
        by (intro fatal2[of None]) (auto simp: io_bind_def)
    next
      case (failed pr f' cap)
      with run1 show ?thesis
        by (intro fatal2[of "Some (returncode pr)"]) (auto simp: io_bind_def)
    next
      case s2: (ok pr2 f2)
      let ?w2 = "?w1\<lparr>fs := f2, trace := trace ?w1 @ [Out (Running c2), Subprocess c2 (Some 0)]\<rparr>"
      from run1 s2 have run2: "io_bind (run_cmd e c3) ?tail ?w2 = (r, w')"
        by (simp add: io_bind_def)
      show ?thesis
      proof (cases rule: run_cmd_cases[of c3 e ?w2])
        case (noresult x f')
        with run2 show ?thesis
          by (intro fatal3[of None]) (auto simp: io_bind_def)
      next
        case (failed pr f' cap)
        with run2 show ?thesis
          by (intro fatal3[of "Some (returncode pr)"]) (auto simp: io_bind_def)
      next
        case s3: (ok pr3 f3)
        let ?w3 = "?w2\<lparr>fs := f3, trace := trace ?w2 @ [Out (Running c3), Subprocess c3 (Some 0)]\<rparr>"
        from run2 s3 have run3: "?tail () ?w3 = (r, w')"
          by (simp add: io_bind_def)
        show ?thesis
        proof (cases "path_exists f3 ?md")
          case False
          with run3 show ?thesis
            by (intro no_model) (auto simp: io_defs)
        next
          case True
          with run3
          have run4: "io_bind (io_try (run_cmd e c4) (\<lambda>x. print_err (ConverterFailed x)))
              (\<lambda>_. io_bind (print_out (SparseDone ?md)) (\<lambda>_. io_return 0)) ?w3 = (r, w')"
            by (simp add: io_bind_def exists_io_def)
          from s3(1) have sp3: "spawn e c3 f2 = Some (pr3, f3)" by simp
          show ?thesis
          proof (cases rule: run_cmd_cases[of c4 e ?w3])
            case (noresult x f')
            with run4 show ?thesis
              by (intro converted[of None f2 pr3 f3, OF _ _ sp3 s3(3)])
                 (auto simp: io_defs)
          next
            case (failed pr f' cap)
            with run4 show ?thesis
              by (intro converted[of "Some (returncode pr)" f2 pr3 f3, OF _ _ sp3 s3(3)])
                 (auto simp: io_defs)
          next
            case (ok pr f')
            with run4 show ?thesis
              by (intro converted[of "Some 0" f2 pr3 f3, OF _ _ sp3 s3(3)])
                 (auto simp: io_defs)
          qed
        qed
      qed
    qed
  qed
qed

subsection \<open>The outcomes of the reconstruction runner\<close>

lemma ensure_colmap_pure: "snd (ensure_colmap e w) = w"
  by (simp add: ensure_colmap_def io_defs split: option.splits)

lemma ensure_colmap_error: "fst (ensure_colmap e w) = Inl x \<Longrightarrow> x = ToolNotFound ''colmap''"
  by (auto simp: ensure_colmap_def io_defs split: option.splits if_splits)

lemma run_colmap_main_cases:
  assumes run: "run_colmap_main e args w = (r, w')"
  obtains
    (tool_missing) "r = Inl (ToolNotFound ''colmap'')" "w' = w"
  | (no_images) "r = Inr 1" "fs w' = fs w" "runs (trace w') = runs (trace w)"
  | (mkdir_failed) "exit_status r = 1" "runs (trace w') = runs (trace w)"
  | (staged) colmap w2 where "ensure_colmap e w = (Inr colmap, w)"
      "runs (trace w2) = runs (trace w)"
      "run_stages e args colmap (resolve e (images args)) (resolve e (rc_out args))
         (joinpath (resolve e (rc_out args)) ''sparse'') w2 = (r, w')"
proof (cases "fst (ensure_colmap e w)")
  case (Inl x)
  with ensure_colmap_error[OF Inl] ensure_colmap_pure[of e w] run show ?thesis
    by (intro tool_missing) (auto simp: run_colmap_main_def io_bind_def split: prod.splits)
next
  case (Inr colmap)
  with ensure_colmap_pure[of e w] have ens: "ensure_colmap e w = (Inr colmap, w)"
    by (cases "ensure_colmap e w") simp
  let ?out = "resolve e (rc_out args)"
  let ?sp = "joinpath ?out ''sparse''"
  show ?thesis
  proof (cases "path_exists (fs w) (resolve e (images args))")
    case False
    with run ens show ?thesis
      by (intro no_images) (auto simp: run_colmap_main_def io_defs Let_def)
  next
    case True
    obtain r1 w1 where m1: "mkdir e ?out True True w = (r1, w1)"
      by (cases "mkdir e ?out True True w")
    from mkdir_runs[of e ?out True True w] m1 have t1: "runs (trace w1) = runs (trace w)"
      by simp
    show ?thesis
    proof (cases r1)
      case (Inl x)
      with run ens True m1 t1 mkdir_error[of e ?out True True w x] show ?thesis
        by (intro mkdir_failed)
           (auto simp: run_colmap_main_def io_bind_def exists_io_def Let_def)
    next
      case u1: (Inr u)
      obtain r2 w2 where m2: "mkdir e ?sp False True w1 = (r2, w2)"
        by (cases "mkdir e ?sp False True w1")
      from mkdir_runs[of e ?sp False True w1] m2 t1
      have t2: "runs (trace w2) = runs (trace w)" by simp
      show ?thesis
      proof (cases r2)
        case (Inl x)
        with run ens True m1 u1 m2 t2 mkdir_error[of e ?sp False True w1 x] show ?thesis
          by (intro mkdir_failed)
             (auto simp: run_colmap_main_def io_bind_def exists_io_def Let_def)
      next
        case (Inr u)
        with run ens True m1 u1 m2 t2 show ?thesis
          by (intro staged[of colmap w2])
             (auto simp: run_colmap_main_def io_bind_def exists_io_def Let_def)
      qed
    qed
  qed
qed

subsection \<open>The outcomes of the frame extractor\<close>

lemma extract_frames_outcome:
  assumes run: "extract_frames e args ff vp d w = (r, w')"
  defines "cmd \<equiv> extract_cmd ff (overwrite args) (path_str e vp) (fps args)
                    (path_str e (joinpath d ''frame_%05d.png''))"
  obtains
    (noresult) "exit_status r = 1"
      "trace w' = trace w @ [Out (ExtractCommand cmd), Subprocess cmd None]"
      "spawn e cmd (fs w) = None \<and> fs w' = fs w \<or>
       (\<exists>pr. spawn e cmd (fs w) = Some (pr, fs w') \<and> \<not> decodable pr)"
  | (failed) pr f' cap where "spawn e cmd (fs w) = Some (pr, f')" "returncode pr \<noteq> 0"
      "r = Inr (returncode pr)" "fs w' = f'"
      "trace w' = trace w @ [Out (ExtractCommand cmd), Subprocess cmd (Some (returncode pr)),
                             Err ExtractFailed] @ cap"
      "set cap \<subseteq> {Err (Captured (stdout pr)), Err (Captured (stderr pr))}" "runs cap = []"
  | (no_frames) pr f' where "spawn e cmd (fs w) = Some (pr, f')" "returncode pr = 0"
      "glob f' d ''frame_*.png'' = []" "r = Inr 1" "fs w' = f'"
      "trace w' = trace w @ [Out (ExtractCommand cmd), Subprocess cmd (Some 0),
                             Err NoFramesGenerated]"
  | (finished) pr f' where "spawn e cmd (fs w) = Some (pr, f')" "returncode pr = 0"
      "glob f' d ''frame_*.png'' \<noteq> []" "r = Inr 0" "fs w' = f'"
      "trace w' = trace w @ [Out (ExtractCommand cmd), Subprocess cmd (Some 0),
                             Out (ExtractDone (length (glob f' d ''frame_*.png'')) d)]"
proof (cases "spawn e cmd (fs w)")
  case None
  with run show ?thesis
    by (intro noresult)
       (auto simp: extract_frames_def cmd_def[symmetric] subprocess_run_def io_defs Let_def)
next
  case (Some a)
  obtain pr f' where a: "a = (pr, f')" by (cases a)
  show ?thesis
  proof (cases "decodable pr")
    case False
    with run Some a show ?thesis
      by (intro noresult)
         (auto simp: extract_frames_def cmd_def[symmetric] subprocess_run_def io_defs Let_def)
  next
    case dec: True
    show ?thesis
    proof (cases "returncode pr = 0")
      case False
      with run Some a dec show ?thesis
        by (intro failed[of pr f'
              "(if stdout pr \<noteq> [] then [Err (Captured (stdout pr))] else [])
               @ (if stderr pr \<noteq> [] then [Err (Captured (stderr pr))] else [])"])
           (auto simp: extract_frames_def cmd_def[symmetric] subprocess_run_def io_defs Let_def
              split: if_splits)
    next
      case True
      show ?thesis
      proof (cases "glob f' d ''frame_*.png'' = []")
        case empty: True
        with run Some a dec True show ?thesis
          by (intro no_frames[of pr f'])
             (auto simp: extract_frames_def cmd_def[symmetric] subprocess_run_def io_defs Let_def)
      next
        case False
        with run Some a dec True show ?thesis
          by (intro finished[of pr f'])
             (auto simp: extract_frames_def cmd_def[symmetric] subprocess_run_def io_defs Let_def)
      qed
    qed
  qed
qed

lemma prepare_video_main_cases:
  assumes run: "prepare_video_main e args w = (r, w')"
  defines "d \<equiv> joinpath (resolve e (pv_out args)) ''images''"
  obtains
    (tool_missing) "fst (ensure_ffmpeg e w) = Inl (ToolNotFound ''ffmpeg'')"
      "r = Inl (ToolNotFound ''ffmpeg'')" "w' = w"
  | (no_video) "\<not> path_exists (fs w) (resolve e (video args))" "r = Inr 1" "fs w' = fs w"
      "trace w' = trace w @ [Err (VideoNotFound (resolve e (video args)))]"
  | (mkdir_failed) x f1 where "path_exists (fs w) (resolve e (video args))"
      "path_mkdir e d True True (fs w) = (Inl x, f1)"
      "r = Inl x" "exit_status r = 1" "fs w' = f1" "trace w' = trace w @ [Mkdir d]"
  | (guard) f1 where "path_exists (fs w) (resolve e (video args))" "\<not> overwrite args"
      "path_mkdir e d True True (fs w) = (Inr (), f1)"
      "glob f1 d ''frame_*.png'' \<noteq> []" "r = Inr 1" "fs w' = f1"
      "trace w' = trace w @ [Mkdir d, Err (FramesExist d)]"
  | (extraction) ff f1 where "ensure_ffmpeg e w = (Inr ff, w)"
      "path_exists (fs w) (resolve e (video args))"
      "path_mkdir e d True True (fs w) = (Inr (), f1)"
      "overwrite args \<or> glob f1 d ''frame_*.png'' = []"
      "extract_frames e args ff (resolve e (video args)) d
         (w\<lparr>fs := f1, trace := trace w @ [Mkdir d]\<rparr>) = (r, w')"
proof (cases "fst (ensure_ffmpeg e w)")
  case (Inl x)
  with run show ?thesis
    by (intro tool_missing)
       (auto simp: prepare_video_main_def ensure_ffmpeg_def io_defs split: option.splits if_splits)
next
  case (Inr ff)
  then have ens: "ensure_ffmpeg e w = (Inr ff, w)"
    by (auto simp: ensure_ffmpeg_def io_defs split: option.splits if_splits)
  show ?thesis
  proof (cases "path_exists (fs w) (resolve e (video args))")
    case False
    with run ens show ?thesis
      by (intro no_video) (auto simp: prepare_video_main_def io_defs Let_def)
  next
    case True
    obtain r1 f1 where m1: "path_mkdir e d True True (fs w) = (r1, f1)"
      by (cases "path_mkdir e d True True (fs w)")
    note defs = prepare_video_main_def mkdir_def io_defs Let_def d_def
    show ?thesis
    proof (cases r1)
      case (Inl x)
      with run ens m1 True path_mkdir_error[of e d True True "fs w" x] show ?thesis
        by (intro mkdir_failed[of x f1]) (auto simp: defs)
    next
      case (Inr u)
      show ?thesis
      proof (cases "\<not> overwrite args \<and> glob f1 d ''frame_*.png'' \<noteq> []")
        case True
        with run Inr m1 ens \<open>path_exists (fs w) (resolve e (video args))\<close> show ?thesis
          by (intro guard[of f1]) (auto simp: defs split: if_splits)
      next
        case False
        with run Inr m1 ens \<open>path_exists (fs w) (resolve e (video args))\<close> show ?thesis
          by (intro extraction[of ff f1]) (auto simp: defs split: if_splits)
      qed
    qed
  qed
qed

subsection \<open>Argument defaults\<close>


section \<open>The reconstruction runner: claims\<close>

text \<open>
  Claim C3. \<^verbatim>\<open>ensure_colmap\<close> looks, in this order, for the bundled launcher
  \<^verbatim>\<open>tools/colmap/COLMAP.bat\<close>, then \<^verbatim>\<open>tools/colmap/bin/colmap.exe\<close>, then
  \<^verbatim>\<open>tools/colmap/bin/colmap\<close> (all below the installation root) and returns the first
  that exists; when none exists it returns what the search path gives for \<^verbatim>\<open>colmap\<close>,
  and when that gives nothing it raises the tool-not-found error. It changes nothing.
\<close>

theorem ensure_colmap_order:
  "ensure_colmap e w =
     (if path_exists (fs w) (here e @ [''tools'', ''colmap'', ''COLMAP.bat''])
      then (Inr (path_str e (here e @ [''tools'', ''colmap'', ''COLMAP.bat''])), w)
      else if path_exists (fs w) (here e @ [''tools'', ''colmap'', ''bin'', ''colmap.exe''])
      then (Inr (path_str e (here e @ [''tools'', ''colmap'', ''bin'', ''colmap.exe''])), w)
      else if path_exists (fs w) (here e @ [''tools'', ''colmap'', ''bin'', ''colmap''])
      then (Inr (path_str e (here e @ [''tools'', ''colmap'', ''bin'', ''colmap''])), w)
      else (case which e ''colmap'' of
              None \<Rightarrow> (Inl (ToolNotFound ''colmap''), w)
            | Some c \<Rightarrow> if c = [] then (Inl (ToolNotFound ''colmap''), w) else (Inr c, w)))"
  by (simp add: ensure_colmap_def candidates_def joinpath_def io_defs split: option.splits)

text \<open>
  With both bundled binaries present and no launcher, the \<^verbatim>\<open>.exe\<close> is taken, although
  the search path has a \<^verbatim>\<open>colmap\<close> too.
\<close>

theorem ensure_colmap_order_witness:
  "ensure_colmap (demo_env []) \<lparr>fs = bundled_fs, trace = []\<rparr> =
     (Inr ''/opt/litegs/tools/colmap/bin/colmap.exe'', \<lparr>fs = bundled_fs, trace = []\<rparr>)"
  using ensure_colmap_order[of "demo_env []" "\<lparr>fs = bundled_fs, trace = []\<rparr>"]
  by (simp add: demo_env_def bundled_fs_def path_exists_def demo_str_def)

text \<open>
  Claim C1. When the mapping stage has exited with code 0 and the model-conversion
  subprocess exits with a code other than 0, the failure is caught: it is reported on
  standard error as a warning that carries the failure, the exit status is 0, and the
  wrapper itself writes nothing: the conversion was started on exactly the filesystem
  the mapper left, and the filesystem at the end is exactly the one the conversion
  subprocess left.
\<close>

theorem converter_failure_is_absorbed:
  assumes "run_colmap_main e args \<lparr>fs = fsys, trace = []\<rparr> = (r, w')"
      and "(cmd, Some rc) \<in> set (runs (trace w'))" and "rc \<noteq> 0"
      and "subcommand cmd = ''model_converter''"
  shows "exit_status r = 0 \<and> Err (ConverterFailed (CommandFailed rc)) \<in> set (trace w') \<and>
         (\<exists>mcmd f2 p3 f3 p4. subcommand mcmd = ''mapper'' \<and>
            (mcmd, Some 0) \<in> set (runs (trace w')) \<and>
            spawn e mcmd f2 = Some (p3, f3) \<and> returncode p3 = 0 \<and>
            spawn e cmd f3 = Some (p4, fs w') \<and> returncode p4 = rc)"
  using assms(1)
proof (cases rule: run_colmap_main_cases)
  case (staged colmap w2)
  from staged(3) show ?thesis
  proof (cases rule: run_stages_outcome)
    case (converted o4 f2 p3 f3)
    let ?c3 = "mapper_cmd colmap
        (path_str e (joinpath (resolve e (rc_out args)) ''database.db''))
        (path_str e (resolve e (images args)))
        (path_str e (joinpath (resolve e (rc_out args)) ''sparse'')) (threads args)"
    from converted(2) assms(2-) staged(2)
    have c: "cmd = converter_cmd colmap
        (path_str e (joinpath (joinpath (resolve e (rc_out args)) ''sparse'') ''0''))"
      and o: "o4 = Some rc"
      by auto
    from converted(5) o obtain p4
      where p4: "spawn e cmd f3 = Some (p4, fs w')" "returncode p4 = rc"
      unfolding c by (auto split: option.splits if_splits)
    from converted(6) o assms(3)
    have warned: "Err (ConverterFailed (CommandFailed rc)) \<in> set (trace w')"
      by auto
    have sub: "subcommand ?c3 = ''mapper''" by simp
    from converted(2) staged(2) have ran: "(?c3, Some 0) \<in> set (runs (trace w'))" by simp
    from sub ran converted(3,4) p4
    have "\<exists>mcmd f2 p3 f3 p4. subcommand mcmd = ''mapper'' \<and>
            (mcmd, Some 0) \<in> set (runs (trace w')) \<and>
            spawn e mcmd f2 = Some (p3, f3) \<and> returncode p3 = 0 \<and>
            spawn e cmd f3 = Some (p4, fs w') \<and> returncode p4 = rc"
      by blast
    with warned converted(1) show ?thesis
      by simp
  qed (use assms(2-) staged(2) in \<open>auto split: if_splits\<close>)
qed (use assms in auto)

theorem converter_failure_is_absorbed_witness:
  "([''/usr/bin/colmap'', ''model_converter'', ''--input_path'', ''/data/job/sparse/0'',
     ''--output_path'', ''/data/job/sparse/0'', ''--output_type'', ''TXT''], Some 1)
     \<in> set (runs (trace (snd (run_colmap_main (demo_env ''model_converter'') demo_args
           \<lparr>fs = demo_fs, trace = []\<rparr>)))) \<and>
   exit_status (fst (run_colmap_main (demo_env ''model_converter'') demo_args
           \<lparr>fs = demo_fs, trace = []\<rparr>)) = 0 \<and>
   Err (ConverterFailed (CommandFailed 1))
     \<in> set (trace (snd (run_colmap_main (demo_env ''model_converter'') demo_args
           \<lparr>fs = demo_fs, trace = []\<rparr>))) \<and>
   map_of (fs (snd (run_colmap_main (demo_env ''model_converter'') demo_args
           \<lparr>fs = demo_fs, trace = []\<rparr>))) [''data'', ''job'', ''sparse'', ''0'', ''cameras.bin'']
     = Some (File ''bin'')"
  using converter_failure_is_absorbed[of "demo_env ''model_converter''" demo_args demo_fs
      "fst (run_colmap_main (demo_env ''model_converter'') demo_args \<lparr>fs = demo_fs, trace = []\<rparr>)"
      "snd (run_colmap_main (demo_env ''model_converter'') demo_args \<lparr>fs = demo_fs, trace = []\<rparr>)"
      "[''/usr/bin/colmap'', ''model_converter'', ''--input_path'', ''/data/job/sparse/0'',
        ''--output_path'', ''/data/job/sparse/0'', ''--output_type'', ''TXT'']" 1]
  by (simp add: eval_defs)

text \<open>
  Claim C2. When the feature-extraction, the feature-matching or the mapping subprocess
  exits with a code other than 0, it is the last subprocess of the run: no later stage is
  started (after a failed mapping, in particular, no model conversion), and the exit
  status of the script is not 0.
\<close>

theorem fatal_stage_stops_pipeline:
  assumes "run_colmap_main e args \<lparr>fs = fsys, trace = []\<rparr> = (r, w')"
      and "i < length (runs (trace w'))"
      and "runs (trace w') ! i = (cmd, Some rc)" and "rc \<noteq> 0"
      and "subcommand cmd \<in>
             {''feature_extractor'', ''sequential_matcher'', ''exhaustive_matcher'', ''mapper''}"
  shows "length (runs (trace w')) = Suc i \<and> exit_status r \<noteq> 0 \<and>
         (\<forall>c oc. (c, oc) \<in> set (runs (trace w')) \<and> subcommand cmd = ''mapper''
             \<longrightarrow> subcommand c \<noteq> ''model_converter'')"
  using assms(1)
proof (cases rule: run_colmap_main_cases)
  case (staged colmap w2)
  from staged(3) show ?thesis
    using assms(2-) staged(2)
    by (cases rule: run_stages_outcome)
       (auto simp: nth_Cons' less_Suc_eq split: if_splits)
qed (use assms in auto)

theorem fatal_stage_stops_pipeline_witness:
  "runs (trace (snd (run_colmap_main (demo_env ''mapper'') demo_args \<lparr>fs = demo_fs, trace = []\<rparr>)))
     ! 2 = ([''/usr/bin/colmap'', ''mapper'', ''--database_path'', ''/data/job/database.db'',
             ''--image_path'', ''/data/frames'', ''--output_path'', ''/data/job/sparse'',
             ''--Mapper.num_threads'', ''4''], Some 1) \<and>
   length (runs (trace (snd (run_colmap_main (demo_env ''mapper'') demo_args
      \<lparr>fs = demo_fs, trace = []\<rparr>)))) = 3 \<and>
   exit_status (fst (run_colmap_main (demo_env ''mapper'') demo_args
      \<lparr>fs = demo_fs, trace = []\<rparr>)) \<noteq> 0"
  using fatal_stage_stops_pipeline[of "demo_env ''mapper''" demo_args demo_fs
      "fst (run_colmap_main (demo_env ''mapper'') demo_args \<lparr>fs = demo_fs, trace = []\<rparr>)"
      "snd (run_colmap_main (demo_env ''mapper'') demo_args \<lparr>fs = demo_fs, trace = []\<rparr>)"
      2 "[''/usr/bin/colmap'', ''mapper'', ''--database_path'', ''/data/job/database.db'',
             ''--image_path'', ''/data/frames'', ''--output_path'', ''/data/job/sparse'',
             ''--Mapper.num_threads'', ''4'']" 1]
  by (simp add: eval_defs exit_status_def)



section \<open>Both tools: claims\<close>

text \<open>
  Claim C7. When the executable cannot be located (\<^verbatim>\<open>ffmpeg\<close> is not on the search path;
  no bundled \<^verbatim>\<open>colmap\<close> exists and none is on the search path), the run ends with the
  tool-not-found error and the world is the one it started in: the filesystem is
  unchanged and the trace has no new event, so no directory was created and no
  subprocess was started before the resolution.
\<close>

theorem tool_not_found_changes_nothing:
  "(which e ''ffmpeg'' = None \<longrightarrow>
      prepare_video_main e pa w = (Inl (ToolNotFound ''ffmpeg''), w)) \<and>
   (first_existing (fs w) (candidates (here e)) = None \<and> which e ''colmap'' = None \<longrightarrow>
      run_colmap_main e ra w = (Inl (ToolNotFound ''colmap''), w))"
  by (simp add: prepare_video_main_def ensure_ffmpeg_def run_colmap_main_def ensure_colmap_def
      io_defs)

theorem tool_not_found_changes_nothing_witness:
  "which bare_env ''ffmpeg'' = None \<and>
   prepare_video_main bare_env (video_args False) \<lparr>fs = fresh_fs, trace = []\<rparr>
     = (Inl (ToolNotFound ''ffmpeg''), \<lparr>fs = fresh_fs, trace = []\<rparr>) \<and>
   first_existing demo_fs (candidates (here bare_env)) = None \<and> which bare_env ''colmap'' = None \<and>
   run_colmap_main bare_env demo_args \<lparr>fs = demo_fs, trace = []\<rparr>
     = (Inl (ToolNotFound ''colmap''), \<lparr>fs = demo_fs, trace = []\<rparr>)"
  using tool_not_found_changes_nothing[of bare_env "video_args False" "\<lparr>fs = fresh_fs, trace = []\<rparr>"]
    tool_not_found_changes_nothing[of bare_env _ "\<lparr>fs = demo_fs, trace = []\<rparr>" demo_args]
  by (simp add: bare_env_def candidates_def joinpath_def demo_fs_def path_exists_def)

section \<open>The frame extractor: claims\<close>

text \<open>
  Claim C4. When \<^verbatim>\<open>--overwrite\<close> is absent and an entry matching \<^verbatim>\<open>frame_*.png\<close> exists
  in \<^verbatim>\<open><out>/images\<close>, the exit status is 1, no subprocess is started, and the filesystem
  at the end is the one at the start.
\<close>

theorem guard_aborts_before_extraction:
  assumes "\<not> overwrite args"
      and "glob fsys (joinpath (resolve e (pv_out args)) ''images'') ''frame_*.png'' \<noteq> []"
      and "prepare_video_main e args \<lparr>fs = fsys, trace = []\<rparr> = (r, w')"
  shows "exit_status r = 1 \<and> runs (trace w') = [] \<and> fs w' = fsys"
proof -
  let ?d = "joinpath (resolve e (pv_out args)) ''images''"
  from assms(2) have dir: "is_dir fsys ?d"
    by (rule glob_nonempty_is_dir)
  then have mk: "path_mkdir e ?d True True fsys = (Inr (), fsys)"
    by (rule path_mkdir_existing)
  from assms(3) show ?thesis
  proof (cases rule: prepare_video_main_cases)
    case (extraction ff f1)
    with mk assms(1,2) show ?thesis by auto
  qed (use mk in auto)
qed

theorem guard_aborts_before_extraction_witness:
  "\<not> overwrite (video_args False) \<and>
   glob video_fs (joinpath (resolve (video_env [] 0) (pv_out (video_args False))) ''images'')
     ''frame_*.png'' \<noteq> [] \<and>
   exit_status (fst (prepare_video_main (video_env [] 0) (video_args False)
      \<lparr>fs = video_fs, trace = []\<rparr>)) = 1 \<and>
   fs (snd (prepare_video_main (video_env [] 0) (video_args False)
      \<lparr>fs = video_fs, trace = []\<rparr>)) = video_fs"
  using guard_aborts_before_extraction[of "video_args False" video_fs "video_env [] 0"
      "fst (prepare_video_main (video_env [] 0) (video_args False) \<lparr>fs = video_fs, trace = []\<rparr>)"
      "snd (prepare_video_main (video_env [] 0) (video_args False) \<lparr>fs = video_fs, trace = []\<rparr>)"]
  by (simp add: video_eval_defs)

text \<open>
  Claim C6, as stated, fails in its last part. When the operating system kills the
  extraction tool with signal 9, the script gets return code -9 and hands it to
  \<^verbatim>\<open>sys.exit\<close>, and the exit status of the script is 247. And when the tool exits with
  code 3 but its captured output is not text, \<^verbatim>\<open>subprocess.run\<close> raises, no return code
  reaches the script, and the exit status is 1.
\<close>

theorem exit_code_passthrough_counterexample:
  "returncode \<lparr>status = Signaled 9, stdout = [], stderr = [], decodable = True\<rparr> = - 9 \<and>
   map snd (runs (trace (snd (prepare_video_main (tool_env (\<lambda>f. f) (Signaled 9) True)
      (video_args False) \<lparr>fs = fresh_fs, trace = []\<rparr>)))) = [Some (- 9)] \<and>
   exit_status (fst (prepare_video_main (tool_env (\<lambda>f. f) (Signaled 9) True)
      (video_args False) \<lparr>fs = fresh_fs, trace = []\<rparr>)) = 247 \<and>
   returncode \<lparr>status = Exited 3, stdout = [], stderr = [], decodable = False\<rparr> = 3 \<and>
   map snd (runs (trace (snd (prepare_video_main (tool_env (\<lambda>f. f) (Exited 3) False)
      (video_args False) \<lparr>fs = fresh_fs, trace = []\<rparr>)))) = [None] \<and>
   exit_status (fst (prepare_video_main (tool_env (\<lambda>f. f) (Exited 3) False)
      (video_args False) \<lparr>fs = fresh_fs, trace = []\<rparr>)) = 1"
  by (simp add: video_eval_defs exit_status_def)

text \<open>
  Claim C6, amended. The exit status of the frame extractor: 1 when the input video does
  not exist; 1 when the overwrite guard aborts; when a return code of the extraction
  subprocess reached the script, that return code modulo 256 if it is not 0 (the tool's
  own exit code when the tool ended with one, that is, when the return code is positive),
  else 1 if nothing matches the frame pattern afterwards, else 0; 1 when the subprocess
  could not be started or its output could not be decoded; and 0 in no other way than
  after a subprocess with return code 0 that left a frame.
\<close>

theorem frame_extractor_exit_status:
  assumes "prepare_video_main e args \<lparr>fs = fsys, trace = []\<rparr> = (r, w')"
  shows "(\<not> path_exists fsys (resolve e (video args)) \<longrightarrow> exit_status r = 1) \<and>
         (Err (FramesExist (joinpath (resolve e (pv_out args)) ''images'')) \<in> set (trace w')
            \<longrightarrow> exit_status r = 1) \<and>
         (\<forall>c rc. (c, Some rc) \<in> set (runs (trace w')) \<longrightarrow>
            exit_status r =
              (if rc \<noteq> 0 then rc mod 256
               else if glob (fs w') (joinpath (resolve e (pv_out args)) ''images'') ''frame_*.png'' = []
               then 1 else 0) \<and>
            (0 < rc \<longrightarrow> exit_status r = rc)) \<and>
         (\<forall>c. (c, None) \<in> set (runs (trace w')) \<longrightarrow> exit_status r = 1) \<and>
         (exit_status r = 0 \<longrightarrow>
            (\<exists>c. runs (trace w') = [(c, Some 0)]) \<and>
            glob (fs w') (joinpath (resolve e (pv_out args)) ''images'') ''frame_*.png'' \<noteq> [])"
  using assms
proof (cases rule: prepare_video_main_cases)
  case (extraction ff f1)
  from extraction(5) show ?thesis
  proof (cases rule: extract_frames_outcome)
    case (failed pr f' cap)
    with extraction(2) returncode_mod_256[of pr] returncode_exit_code[of pr] show ?thesis
      by (auto simp: exit_status_def)
  qed (use extraction(2) in auto)
qed auto

theorem frame_extractor_exit_status_witness:
  "exit_status (fst (prepare_video_main (video_env [(''frame_00001.png'', ''new1'')] 3)
      (video_args False) \<lparr>fs = fresh_fs, trace = []\<rparr>)) = 3 \<and>
   exit_status (fst (prepare_video_main (video_env [] 0)
      (video_args False) \<lparr>fs = fresh_fs, trace = []\<rparr>)) = 1 \<and>
   exit_status (fst (prepare_video_main (video_env [(''frame_00001.png'', ''new1'')] 0)
      (video_args False) \<lparr>fs = fresh_fs, trace = []\<rparr>)) = 0 \<and>
   exit_status (fst (prepare_video_main (video_env [] 0)
      (video_args False) \<lparr>fs = video_fs, trace = []\<rparr>)) = 1 \<and>
   exit_status (fst (prepare_video_main (video_env [] 0)
      (video_args False) \<lparr>fs = [], trace = []\<rparr>)) = 1"
  using frame_extractor_exit_status[of "video_env [(''frame_00001.png'', ''new1'')] 3"
      "video_args False" fresh_fs
      "fst (prepare_video_main (video_env [(''frame_00001.png'', ''new1'')] 3)
          (video_args False) \<lparr>fs = fresh_fs, trace = []\<rparr>)"
      "snd (prepare_video_main (video_env [(''frame_00001.png'', ''new1'')] 3)
          (video_args False) \<lparr>fs = fresh_fs, trace = []\<rparr>)"]
    frame_extractor_exit_status[of "video_env [] 0" "video_args False" fresh_fs
      "fst (prepare_video_main (video_env [] 0) (video_args False) \<lparr>fs = fresh_fs, trace = []\<rparr>)"
      "snd (prepare_video_main (video_env [] 0) (video_args False) \<lparr>fs = fresh_fs, trace = []\<rparr>)"]
  by (simp add: video_eval_defs exit_status_def)




text \<open>
  Claim C5, as stated, fails: with two frames of an earlier run in place and a new run
  under \<^verbatim>\<open>--overwrite\<close> that writes the first frame only, the script succeeds and reports
  2 frames, although the run produced 1, and the second frame of the earlier run is
  still there with its old content.
\<close>

theorem overwrite_count_counterexample:
  "overwrite (video_args True) \<and>
   exit_status (fst (prepare_video_main (video_env [(''frame_00001.png'', ''new1'')] 0)
      (video_args True) \<lparr>fs = video_fs, trace = []\<rparr>)) = 0 \<and>
   Out (ExtractDone 2 [''data'', ''clip'', ''images''])
     \<in> set (trace (snd (prepare_video_main (video_env [(''frame_00001.png'', ''new1'')] 0)
          (video_args True) \<lparr>fs = video_fs, trace = []\<rparr>))) \<and>
   produced_frames video_fs
     (fs (snd (prepare_video_main (video_env [(''frame_00001.png'', ''new1'')] 0)
          (video_args True) \<lparr>fs = video_fs, trace = []\<rparr>)))
     [''data'', ''clip'', ''images''] = [[''data'', ''clip'', ''images'', ''frame_00001.png'']] \<and>
   map_of (fs (snd (prepare_video_main (video_env [(''frame_00001.png'', ''new1'')] 0)
          (video_args True) \<lparr>fs = video_fs, trace = []\<rparr>)))
     [''data'', ''clip'', ''images'', ''frame_00002.png''] = Some (File ''old2'')"
  by (simp add: video_eval_defs exit_status_def produced_frames_def)

text \<open>
  Claim C5, amended. With \<^verbatim>\<open>--overwrite\<close>, a successful run has started exactly one
  subprocess, with \<^verbatim>\<open>-y\<close> as its first option (so that the tool replaces existing
  frames where it writes a file of the same name), and the count it reports last counts
  every frame the run produced: it is the length of a list without repetitions that
  holds all of them.
\<close>

theorem overwrite_counts_new_frames:
  assumes "overwrite args"
      and "prepare_video_main e args \<lparr>fs = fsys, trace = []\<rparr> = (r, w')"
      and "exit_status r = 0"
  shows "\<exists>c frames. runs (trace w') = [(c, Some 0)] \<and> c ! 1 = ''-y'' \<and>
           last (trace w') =
             Out (ExtractDone (length frames) (joinpath (resolve e (pv_out args)) ''images'')) \<and>
           distinct frames \<and>
           set (produced_frames fsys (fs w') (joinpath (resolve e (pv_out args)) ''images''))
             \<subseteq> set frames"
  using assms(2)
proof (cases rule: prepare_video_main_cases)
  case (extraction ff f1)
  let ?d = "joinpath (resolve e (pv_out args)) ''images''"
  let ?frames = "glob (fs w') ?d ''frame_*.png''"
  have "distinct ?frames"
    by (simp add: glob_def)
  moreover have "set (produced_frames fsys (fs w') ?d) \<subseteq> set ?frames"
    by (auto simp: produced_frames_def)
  moreover from extraction(5)
  have "\<exists>c. runs (trace w') = [(c, Some 0)] \<and> c ! 1 = ''-y'' \<and>
      last (trace w') = Out (ExtractDone (length ?frames) ?d)"
  proof (cases rule: extract_frames_outcome)
    case (failed pr f' cap)
    with assms(3) returncode_mod_256[of pr] show ?thesis
      by (simp add: exit_status_def)
  next
    case (finished pr f')
    with assms(1) show ?thesis
      by (simp add: extract_cmd_def)
  qed (use assms(3) in auto)
  ultimately show ?thesis by blast
qed (use assms(3) in auto)

theorem overwrite_counts_new_frames_witness:
  "overwrite (video_args True) \<and>
   exit_status (fst (prepare_video_main (video_env [(''frame_00001.png'', ''new1'')] 0)
      (video_args True) \<lparr>fs = video_fs, trace = []\<rparr>)) = 0 \<and>
   last (trace (snd (prepare_video_main (video_env [(''frame_00001.png'', ''new1'')] 0)
      (video_args True) \<lparr>fs = video_fs, trace = []\<rparr>)))
     = Out (ExtractDone 2 [''data'', ''clip'', ''images''])"
  using overwrite_counts_new_frames[of "video_args True"
      "video_env [(''frame_00001.png'', ''new1'')] 0" video_fs
      "fst (prepare_video_main (video_env [(''frame_00001.png'', ''new1'')] 0)
          (video_args True) \<lparr>fs = video_fs, trace = []\<rparr>)"
      "snd (prepare_video_main (video_env [(''frame_00001.png'', ''new1'')] 0)
          (video_args True) \<lparr>fs = video_fs, trace = []\<rparr>)"]
  by (simp add: video_eval_defs exit_status_def)

text \<open>
  Claim C10, as stated, fails: with the input video in place but no \<^verbatim>\<open>ffmpeg\<close> on the
  search path, the run ends before \<^verbatim>\<open><out>/images\<close> is created; and with a regular file
  where the output root should be, the creation itself raises and leaves no directory.
\<close>

theorem images_dir_counterexample:
  "path_exists fresh_fs (resolve bare_env (video (video_args False))) \<and>
   \<not> is_dir (fs (snd (prepare_video_main bare_env (video_args False)
        \<lparr>fs = fresh_fs, trace = []\<rparr>)))
      (joinpath (resolve bare_env (pv_out (video_args False))) ''images'') \<and>
   trace (snd (prepare_video_main bare_env (video_args False) \<lparr>fs = fresh_fs, trace = []\<rparr>)) = [] \<and>
   path_exists blocked_fs (resolve (video_env [] 0) (video (video_args False))) \<and>
   prepare_video_main (video_env [] 0) (video_args False) \<lparr>fs = blocked_fs, trace = []\<rparr>
     = (Inl (NotADirectoryError [''data'', ''clip'', ''images'']),
        \<lparr>fs = blocked_fs, trace = [Mkdir [''data'', ''clip'', ''images'']]\<rparr>) \<and>
   \<not> is_dir blocked_fs [''data'', ''clip'', ''images'']"
  by (simp add: video_eval_defs blocked_fs_def)

text \<open>
  Claim C10, amended. When \<^verbatim>\<open>ffmpeg\<close> is resolved, the input video exists, and the
  creation of \<^verbatim>\<open><out>/images\<close> with its missing parents does not raise, that creation
  is the first thing in the trace (before the guard's message and before any
  subprocess); it adds only directories on the way to \<^verbatim>\<open><out>/images\<close>, after the
  entries that were there, and afterwards \<^verbatim>\<open><out>/images\<close> is a directory. The
  filesystem at the end of the run is that one, or what the extraction subprocess made
  of it: the script itself never removes the directory, whether the run succeeds or
  fails.
\<close>

theorem images_dir_created_first:
  assumes "which e ''ffmpeg'' = Some ff" and "ff \<noteq> []"
      and "path_exists fsys (resolve e (video args))"
      and "fst (path_mkdir e (joinpath (resolve e (pv_out args)) ''images'') True True fsys) = Inr ()"
      and "prepare_video_main e args \<lparr>fs = fsys, trace = []\<rparr> = (r, w')"
  shows "\<exists>ds rest. set ds \<subseteq> set (prefixes (joinpath (resolve e (pv_out args)) ''images'')) \<and>
           is_dir (fsys @ map (\<lambda>q. (q, Dir)) ds) (joinpath (resolve e (pv_out args)) ''images'') \<and>
           trace w' = Mkdir (joinpath (resolve e (pv_out args)) ''images'') # rest \<and>
           (fs w' = fsys @ map (\<lambda>q. (q, Dir)) ds \<or>
            (\<exists>c pr. spawn e c (fsys @ map (\<lambda>q. (q, Dir)) ds) = Some (pr, fs w')))"
proof -
  let ?d = "joinpath (resolve e (pv_out args)) ''images''"
  from path_mkdir_adds[of e ?d True True fsys]
  obtain ds where ds: "set ds \<subseteq> set (prefixes ?d)"
    and f1: "snd (path_mkdir e ?d True True fsys) = fsys @ map (\<lambda>q. (q, Dir)) ds"
    by blast
  let ?f1 = "fsys @ map (\<lambda>q. (q, Dir)) ds"
  from assms(4) f1 have mk: "path_mkdir e ?d True True fsys = (Inr (), ?f1)"
    by (cases "path_mkdir e ?d True True fsys") simp
  then have dir: "is_dir ?f1 ?d"
    by (rule path_mkdir_creates)
  have "(\<exists>rest. trace w' = Mkdir ?d # rest) \<and>
      (fs w' = ?f1 \<or> (\<exists>c pr. spawn e c ?f1 = Some (pr, fs w')))"
    using assms(5)
  proof (cases rule: prepare_video_main_cases)
    case (extraction ff' f1')
    with mk have same: "f1' = ?f1" by simp
    from extraction(5) show ?thesis
      using same by (cases rule: extract_frames_outcome) auto
  qed (use assms(1-3) mk in \<open>auto simp: ensure_ffmpeg_def io_defs\<close>)
  with ds dir show ?thesis by blast
qed

theorem images_dir_created_first_witness:
  "which (video_env [] 0) ''ffmpeg'' = Some ''/usr/bin/ffmpeg'' \<and>
   path_exists fresh_fs (resolve (video_env [] 0) (video (video_args False))) \<and>
   fst (path_mkdir (video_env [] 0)
          (joinpath (resolve (video_env [] 0) (pv_out (video_args False))) ''images'')
          True True fresh_fs) = Inr () \<and>
   exit_status (fst (prepare_video_main (video_env [] 0) (video_args False)
      \<lparr>fs = fresh_fs, trace = []\<rparr>)) = 1 \<and>
   hd (trace (snd (prepare_video_main (video_env [] 0) (video_args False)
      \<lparr>fs = fresh_fs, trace = []\<rparr>))) = Mkdir [''data'', ''clip'', ''images''] \<and>
   is_dir (fs (snd (prepare_video_main (video_env [] 0) (video_args False)
      \<lparr>fs = fresh_fs, trace = []\<rparr>))) [''data'', ''clip'', ''images'']"
proof -
  let ?e = "video_env [] 0"
  let ?run = "prepare_video_main ?e (video_args False) \<lparr>fs = fresh_fs, trace = []\<rparr>"
  have h1: "which ?e ''ffmpeg'' = Some ''/usr/bin/ffmpeg''"
    by (simp add: video_env_def)
  have h2: "''/usr/bin/ffmpeg'' \<noteq> []"
    by simp
  have h3: "path_exists fresh_fs (resolve ?e (video (video_args False)))"
    by (simp add: video_eval_defs)
  have h4: "fst (path_mkdir ?e (joinpath (resolve ?e (pv_out (video_args False))) ''images'')
      True True fresh_fs) = Inr ()"
    by (simp add: video_eval_defs)
  have h5: "?run = (fst ?run, snd ?run)"
    by simp
  from images_dir_created_first[OF h1 h2 h3 h4 h5] show ?thesis
    by (simp add: video_eval_defs exit_status_def)
qed

end
